theory Spec2Isabelle
  imports Main "HOL-Library.AList"
begin

text \<open>
  A shallow embedding of \<open>create_ng1_wrapper.ts\<close>: the factory \<open>createNg1Wrapper\<close>, the
  controller class it generates and the descriptor it returns. Exceptions are values of
  a sum type, the mutable objects (host element, custom element, registry, root scope)
  are passed and returned explicitly, and what the browser and the two frameworks do at
  the boundary is written out where the code relies on it. The accessors that the
  factory defines for the inputs live on the prototype of the class, next to its
  methods and in the way of its field assignments; the model keeps them there.
\<close>

section \<open>JavaScript values\<close>

text \<open>
  The wrapper never computes with the values it forwards; it only tests them for
  truthiness and for being \<open>undefined\<close>. A value is therefore either \<open>undefined\<close>
  (\<open>None\<close>) or one of the defined values below. Numbers are the integer-valued ones
  plus \<open>NaN\<close>, which is all that the truthiness test distinguishes.
\<close>

datatype js_defined =
    JNull
  | JBool bool
  | JNum int
  | JNaN
  | JStr string
  | JObj "(string \<times> js_defined) list"

type_synonym js_value = "js_defined option"

abbreviation JUndefined :: js_value where
  "JUndefined \<equiv> None"

text \<open>The test of \<open>if (newValue)\<close>: JavaScript's ToBoolean.\<close>

fun truthy :: "js_value \<Rightarrow> bool" where
  "truthy None = False"
| "truthy (Some JNull) = False"
| "truthy (Some (JBool b)) = b"
| "truthy (Some (JNum n)) = (n \<noteq> 0)"
| "truthy (Some JNaN) = False"
| "truthy (Some (JStr s)) = (s \<noteq> [])"
| "truthy (Some (JObj fields)) = True"

section \<open>Events and the locals of an output expression\<close>

text \<open>
  The listener's parameter has type \<open>Event | CustomEvent\<close>. A plain event has no
  \<open>detail\<close> property; a custom event has one, and the DOM initialises it to \<open>null\<close>
  when the creator gives none, so it is a defined value.
\<close>

datatype event =
    Event (event_type: string)
  | CustomEvent (event_type: string) (payload: js_defined)

text \<open>Reading \<open>(e as CustomEvent).detail\<close>: a missing property reads as \<open>undefined\<close>.\<close>

fun read_detail :: "event \<Rightarrow> js_value" where
  "read_detail (Event t) = JUndefined"
| "read_detail (CustomEvent t d) = Some d"

definition isCustomEvent :: "event \<Rightarrow> bool" where
  "isCustomEvent e = (read_detail e \<noteq> JUndefined)"

text \<open>
  \<open>interface AngularJSLocals { $event: Event; detail?: {} }\<close>. The optional key is
  \<open>None\<close> when the object has no \<open>detail\<close> key.
\<close>

record AngularJSLocals =
  dollar_event :: event
  detail :: "js_value option"

section \<open>Errors\<close>

text \<open>
  What the code can throw: the two failures of the metadata lookup, the \<open>Error\<close> that
  the constructor creates with its message, the \<open>TypeError\<close> of calling a property that
  holds no function or of writing a property of \<open>undefined\<close>, and the \<open>SyntaxError\<close> of
  the DOM for a selector that is not valid CSS.
\<close>

datatype error =
    NullInjectorError
  | NoComponentFactoryError
  | Error string
  | TypeError
  | SyntaxError

text \<open>
  The message of the constructor's error. The emoticon that closes it is outside
  ASCII and is given by its UTF-8 bytes.
\<close>

definition shrug :: string where
  "shrug = [CHR 0xC2, CHR 0xAF] @ ''_('' @ [CHR 0xE3, CHR 0x83, CHR 0x84] @ '')_/''
             @ [CHR 0xC2, CHR 0xAF]"

definition notFoundMessage :: "string \<Rightarrow> string" where
  "notFoundMessage customElementSelector =
     ''No custom element ('' @ customElementSelector @ '') found.  '' @ shrug"

section \<open>The DOM boundary\<close>

text \<open>
  An arrow function evaluated by \<open>createEventListener\<close> is a closure with an identity
  of its own: two evaluations give two different listeners, also for the same method
  name. The identity is the serial number the allocator hands out.
\<close>

datatype EventListener = EventListener (closure_id: nat) (methodName: string)

record HTMLElement =
  properties :: "string \<Rightarrow> js_value"
  listeners :: "(string \<times> EventListener) list"

text \<open>
  \<open>properties\<close> is what the element holds under a name after plain property writes;
  a property with a setter of its own on the element is outside the model.
  \<open>addEventListener\<close> appends to the element's listener list unless the same callback
  is already registered for the type; \<open>removeEventListener\<close> takes the matching entry out.
\<close>

definition addEventListener :: "string \<Rightarrow> EventListener \<Rightarrow> HTMLElement \<Rightarrow> HTMLElement" where
  "addEventListener name listener el =
     (if (name, listener) \<in> set (listeners el) then el
      else el\<lparr>listeners := listeners el @ [(name, listener)]\<rparr>)"

definition removeEventListener :: "string \<Rightarrow> EventListener \<Rightarrow> HTMLElement \<Rightarrow> HTMLElement" where
  "removeEventListener name listener el =
     el\<lparr>listeners := removeAll (name, listener) (listeners el)\<rparr>"

text \<open>
  The host element handed to the controller (\<open>$element\<close>): its inline style and the
  lookup of a descendant by selector. The lookup throws for a selector that is not
  valid CSS, and gives \<open>null\<close> (\<open>None\<close>) when the selector is valid and matches no node.
\<close>

record JQuery =
  css :: "string \<rightharpoonup> string"
  querySelector :: "string \<Rightarrow> error + HTMLElement option"

text \<open>\<open>$rootScope.$apply(value)\<close>: the values applied so far, oldest first; each one
  is followed by a digest.\<close>

record IRootScopeService =
  applied :: "js_value list"

definition rootScope_apply :: "js_value \<Rightarrow> IRootScopeService \<Rightarrow> IRootScopeService" where
  "rootScope_apply v rs = rs\<lparr>applied := applied rs @ [v]\<rparr>"

section \<open>Component metadata\<close>

record ComponentProperty =
  propName :: string
  templateName :: string

record ComponentFactory =
  inputs :: "ComponentProperty list"
  outputs :: "ComponentProperty list"

text \<open>
  \<open>injector.get(ComponentFactoryResolver)\<close> throws when there is no provider, and
  \<open>resolveComponentFactory(component)\<close> throws when the component has no factory.
\<close>

record 'c ComponentFactoryResolver =
  resolveComponentFactory :: "'c \<Rightarrow> ComponentFactory option"

record 'c Injector =
  get_ComponentFactoryResolver :: "'c ComponentFactoryResolver option"

record 'c NgElementConfig =
  injector :: "'c Injector"

definition getComponentInputs :: "'c \<Rightarrow> 'c Injector \<Rightarrow> error + ComponentProperty list" where
  "getComponentInputs component theInjector =
     (case get_ComponentFactoryResolver theInjector of
        None \<Rightarrow> Inl NullInjectorError
      | Some componentFactoryResolver \<Rightarrow>
          (case resolveComponentFactory componentFactoryResolver component of
             None \<Rightarrow> Inl NoComponentFactoryError
           | Some componentFactory \<Rightarrow> Inr (inputs componentFactory)))"

definition getComponentOutputs :: "'c \<Rightarrow> 'c Injector \<Rightarrow> error + ComponentProperty list" where
  "getComponentOutputs component theInjector =
     (case get_ComponentFactoryResolver theInjector of
        None \<Rightarrow> Inl NullInjectorError
      | Some componentFactoryResolver \<Rightarrow>
          (case resolveComponentFactory componentFactoryResolver component of
             None \<Rightarrow> Inl NoComponentFactoryError
           | Some componentFactory \<Rightarrow> Inr (outputs componentFactory)))"

section \<open>The generated controller\<close>

subsection \<open>Instances\<close>

text \<open>
  An instance of \<open>Ng1WrapperController\<close> whose construction has succeeded. Its three
  fields are own properties of the instance: \<open>customElement\<close> is the located DOM node
  itself, and every later access to the node goes through this reference;
  \<open>eventListeners\<close> is the \<open>Map\<close> of the class, in insertion order with one entry per
  key. \<open>bound\<close> is what reading \<open>this[methodName]\<close> gives when the value is a function:
  the callbacks that the host framework has bound to the instance and the members that
  the name inherits. A name that reads as no function is \<open>None\<close>. Other writes of the
  host framework to an instance are outside the model.
\<close>

record Ng1WrapperController =
  customElement :: HTMLElement
  eventListeners :: "(string \<times> EventListener) list"
  rootScope :: IRootScopeService
  bound :: "string \<rightharpoonup> (AngularJSLocals \<Rightarrow> js_value)"

subsection \<open>The prototype\<close>

text \<open>
  The setter that \<open>Object.defineProperty\<close> installs for an input property, run on an
  instance whose \<open>customElement\<close> field holds the node.
\<close>

definition setter :: "string \<Rightarrow> js_value \<Rightarrow> Ng1WrapperController \<Rightarrow> Ng1WrapperController" where
  "setter property newValue this =
     (if truthy newValue
      then this\<lparr>customElement :=
             (customElement this)\<lparr>properties := (properties (customElement this))(property := newValue)\<rparr>\<rparr>
      else this)"

text \<open>
  What the prototype of the class holds under a name: a method of the class, or an
  accessor with the given setter and no getter. The class comes with its constructor
  and its three methods; the loop over \<open>propertyInputs\<close> then defines one accessor per
  input name on the same object, and a name that was a method before is an accessor
  afterwards.
\<close>

datatype member =
    Method
  | Accessor "js_value \<Rightarrow> Ng1WrapperController \<Rightarrow> Ng1WrapperController"

type_synonym prototype = "string \<rightharpoonup> member"

definition classMembers :: prototype where
  "classMembers =
     [''constructor'' \<mapsto> Method, ''$onInit'' \<mapsto> Method, ''$onDestroy'' \<mapsto> Method,
      ''createEventListener'' \<mapsto> Method]"

fun defineProperties :: "string list \<Rightarrow> prototype \<Rightarrow> prototype" where
  "defineProperties [] proto = proto"
| "defineProperties (property # rest) proto =
     defineProperties rest (proto(property \<mapsto> Accessor (setter property)))"

subsection \<open>Construction\<close>

text \<open>
  An assignment \<open>this.name = value\<close> made by the constructor, at a time when
  \<open>this.customElement\<close> still reads \<open>undefined\<close>. When the prototype has an accessor
  under the name, the assignment runs its setter: a falsy value is dropped, and for a
  truthy one the setter's own \<open>this.customElement[property] = newValue\<close> writes a
  property of \<open>undefined\<close> and throws. Otherwise the value becomes an own property.
\<close>

datatype assignment = Stored | Dropped | Thrown

definition assignUnset :: "prototype \<Rightarrow> string \<Rightarrow> bool \<Rightarrow> assignment" where
  "assignUnset proto name valueTruthy =
     (case proto name of
        Some (Accessor setFn) \<Rightarrow> (if valueTruthy then Thrown else Dropped)
      | _ \<Rightarrow> Stored)"

text \<open>
  The constructor, with the assignments that the compiler emits at its head for the
  parameter property \<open>$rootScope\<close> and the initialised field \<open>eventListeners\<close>. It
  styles the host element before it looks the custom element up, so the host element
  is part of the outcome also when it throws. After a dropped assignment of \<open>null\<close>,
  \<open>this.customElement\<close> reads \<open>undefined\<close> and the test \<open>!this.customElement\<close> succeeds
  as it does for a stored \<open>null\<close>. \<open>inherited\<close> gives the functions that a name inherits
  through the prototype chain; a name with an accessor reads \<open>undefined\<close> instead.
\<close>

definition constructor ::
  "prototype \<Rightarrow> string \<Rightarrow> JQuery \<Rightarrow> IRootScopeService
     \<Rightarrow> (string \<rightharpoonup> (AngularJSLocals \<Rightarrow> js_value))
     \<Rightarrow> JQuery \<times> (error + Ng1WrapperController)" where
  "constructor proto customElementSelector element rs inherited =
     (if assignUnset proto ''$rootScope'' True = Thrown then (element, Inl TypeError)
      else if assignUnset proto ''eventListeners'' True = Thrown then (element, Inl TypeError)
      else
        let element' = element\<lparr>css := (css element)(''display'' \<mapsto> ''inline-block'')\<rparr>
        in case querySelector element' customElementSelector of
             Inl err \<Rightarrow> (element', Inl err)
           | Inr found \<Rightarrow>
               (case assignUnset proto ''customElement'' (found \<noteq> None) of
                  Thrown \<Rightarrow> (element', Inl TypeError)
                | Dropped \<Rightarrow> (element', Inl (Error (notFoundMessage customElementSelector)))
                | Stored \<Rightarrow>
                    (case found of
                       None \<Rightarrow> (element', Inl (Error (notFoundMessage customElementSelector)))
                     | Some node \<Rightarrow>
                         (element',
                          Inr \<lparr>customElement = node, eventListeners = [], rootScope = rs,
                               bound = (\<lambda>name. case proto name of
                                                  Some (Accessor setFn) \<Rightarrow> None
                                                | _ \<Rightarrow> inherited name)\<rparr>))))"

subsection \<open>Methods\<close>

text \<open>\<open>createEventListener\<close> evaluates the arrow function: a new closure over the
  method name, with the next serial number.\<close>

definition createEventListener :: "string \<Rightarrow> nat \<Rightarrow> EventListener \<times> nat" where
  "createEventListener name heap = (EventListener heap name, Suc heap)"

text \<open>The body of that arrow function, run when the element delivers \<open>e\<close> to it.\<close>

definition make_locals :: "event \<Rightarrow> AngularJSLocals" where
  "make_locals e =
     (let locals = \<lparr>dollar_event = e, detail = None\<rparr>
      in if isCustomEvent e then locals\<lparr>detail := Some (read_detail e)\<rparr> else locals)"

definition handleEvent ::
  "EventListener \<Rightarrow> event \<Rightarrow> Ng1WrapperController \<Rightarrow> error + Ng1WrapperController" where
  "handleEvent listener e this =
     (let locals = make_locals e
      in case bound this (methodName listener) of
           None \<Rightarrow> Inl TypeError
         | Some expression \<Rightarrow>
             Inr (this\<lparr>rootScope := rootScope_apply (expression locals) (rootScope this)\<rparr>))"

text \<open>
  \<open>$onInit\<close>: the loop over \<open>propertyOutputs\<close>, threading the closure allocator. Each
  pass looks \<open>this.createEventListener\<close> up on the prototype and calls it; when the name
  holds an accessor, the read gives \<open>undefined\<close> and the call throws. The result is the
  instance and the allocator as the method leaves them, and the error if it threw.
\<close>

fun onInit ::
  "prototype \<Rightarrow> string list \<Rightarrow> Ng1WrapperController \<Rightarrow> nat
     \<Rightarrow> Ng1WrapperController \<times> nat \<times> error option" where
  "onInit proto [] this heap = (this, heap, None)"
| "onInit proto (output # rest) this heap =
     (case proto ''createEventListener'' of
        Some Method \<Rightarrow>
          (let (eventListener, heap') = createEventListener output heap;
               this1 = this\<lparr>eventListeners := AList.update output eventListener (eventListeners this)\<rparr>;
               this2 = this1\<lparr>customElement := addEventListener output eventListener (customElement this1)\<rparr>
           in onInit proto rest this2 heap')
      | _ \<Rightarrow> (this, heap, Some TypeError))"

text \<open>\<open>$onDestroy\<close>: the loop over the entries of the map.\<close>

fun removeListeners :: "(string \<times> EventListener) list \<Rightarrow> HTMLElement \<Rightarrow> HTMLElement" where
  "removeListeners [] el = el"
| "removeListeners ((name, listener) # rest) el =
     removeListeners rest (removeEventListener name listener el)"

definition onDestroy :: "Ng1WrapperController \<Rightarrow> Ng1WrapperController" where
  "onDestroy this = this\<lparr>customElement := removeListeners (eventListeners this) (customElement this)\<rparr>"

subsection \<open>Delivery of events\<close>

text \<open>
  Delivery of an event by the element: the listeners registered for the event's type
  run in registration order; an exception in one of them is reported by the browser
  and does not stop the others.
\<close>

definition firing :: "HTMLElement \<Rightarrow> event \<Rightarrow> EventListener list" where
  "firing el e = map snd (filter (\<lambda>entry. fst entry = event_type e) (listeners el))"



section \<open>The wrapper factory\<close>

text \<open>
  The class that one call of \<open>createNg1Wrapper\<close> generates: the variables its methods
  close over, its \<open>$inject\<close> annotation and its prototype.
\<close>

record ControllerClass =
  customElementSelector :: string
  propertyInputs :: "string list"
  propertyOutputs :: "string list"
  dollar_inject :: "string list"
  prototype :: prototype

record IComponentOptions =
  controller :: ControllerClass
  bindings :: "(string \<times> string) list"
  template :: string

text \<open>
  \<open>bindings[name] = tag\<close> on the plain object \<open>bindings\<close>: a later assignment to a key
  replaces the earlier one, and the name \<open>__proto__\<close> reaches the setter that every
  plain object inherits, which ignores a string and creates no key.
\<close>

definition assignKey :: "string \<Rightarrow> string \<Rightarrow> (string \<times> string) list \<Rightarrow> (string \<times> string) list" where
  "assignKey name tag obj = (if name = ''__proto__'' then obj else AList.update name tag obj)"

text \<open>The two loops that fill the object.\<close>

fun assignAll :: "string list \<Rightarrow> string \<Rightarrow> (string \<times> string) list \<Rightarrow> (string \<times> string) list" where
  "assignAll [] tag obj = obj"
| "assignAll (name # rest) tag obj = assignAll rest tag (assignKey name tag obj)"

definition make_bindings :: "string list \<Rightarrow> string list \<Rightarrow> (string \<times> string) list" where
  "make_bindings ins outs = assignAll outs ''&?'' (assignAll ins ''<?'' [])"

definition createNg1Wrapper ::
  "string \<Rightarrow> 'c \<Rightarrow> 'c NgElementConfig \<Rightarrow> error + IComponentOptions" where
  "createNg1Wrapper selector component config =
     (case getComponentInputs component (injector config) of
        Inl err \<Rightarrow> Inl err
      | Inr declaredInputs \<Rightarrow>
          (case getComponentOutputs component (injector config) of
             Inl err \<Rightarrow> Inl err
           | Inr declaredOutputs \<Rightarrow>
               (let ins = map propName declaredInputs;
                    outs = map propName declaredOutputs
                in Inr \<lparr>controller =
                          \<lparr>customElementSelector = selector,
                           propertyInputs = ins,
                           propertyOutputs = outs,
                           dollar_inject = [''$element'', ''$rootScope''],
                           prototype = defineProperties ins classMembers\<rparr>,
                        bindings = make_bindings ins outs,
                        template = ''<'' @ selector @ ''></'' @ selector @ ''>''\<rparr>)))"

section \<open>Sample data\<close>

text \<open>
  A component \<open>Widget\<close> with the input \<open>name\<close> and the output \<open>save\<close>, a component
  \<open>Toggle\<close> whose property \<open>value\<close> is declared both as an input and as an output,
  four components with an input named like a member of the controller class, two
  host elements, and an instance as it is between construction and \<open>$onInit\<close>.
\<close>

definition widgetFactory :: ComponentFactory where
  "widgetFactory =
     \<lparr>inputs = [\<lparr>propName = ''name'', templateName = ''name''\<rparr>],
      outputs = [\<lparr>propName = ''save'', templateName = ''save''\<rparr>]\<rparr>"

definition toggleFactory :: ComponentFactory where
  "toggleFactory =
     \<lparr>inputs = [\<lparr>propName = ''value'', templateName = ''value''\<rparr>],
      outputs = [\<lparr>propName = ''value'', templateName = ''value''\<rparr>]\<rparr>"

definition panelFactory :: ComponentFactory where
  "panelFactory =
     \<lparr>inputs = [\<lparr>propName = ''customElement'', templateName = ''customElement''\<rparr>],
      outputs = []\<rparr>"

definition gridFactory :: ComponentFactory where
  "gridFactory =
     \<lparr>inputs = [\<lparr>propName = ''eventListeners'', templateName = ''eventListeners''\<rparr>],
      outputs = []\<rparr>"

definition chartFactory :: ComponentFactory where
  "chartFactory =
     \<lparr>inputs = [\<lparr>propName = ''$rootScope'', templateName = ''$rootScope''\<rparr>],
      outputs = []\<rparr>"

definition playerFactory :: ComponentFactory where
  "playerFactory =
     \<lparr>inputs = [\<lparr>propName = ''createEventListener'', templateName = ''createEventListener''\<rparr>],
      outputs = [\<lparr>propName = ''save'', templateName = ''save''\<rparr>]\<rparr>"

definition sampleResolver :: "string ComponentFactoryResolver" where
  "sampleResolver =
     \<lparr>resolveComponentFactory =
        [''Widget'' \<mapsto> widgetFactory, ''Toggle'' \<mapsto> toggleFactory,
         ''Panel'' \<mapsto> panelFactory, ''Grid'' \<mapsto> gridFactory,
         ''Chart'' \<mapsto> chartFactory, ''Player'' \<mapsto> playerFactory]\<rparr>"

definition sampleConfig :: "string NgElementConfig" where
  "sampleConfig = \<lparr>injector = \<lparr>get_ComponentFactoryResolver = Some sampleResolver\<rparr>\<rparr>"

definition blankNode :: HTMLElement where
  "blankNode = \<lparr>properties = Map.empty, listeners = []\<rparr>"

definition panelHost :: JQuery where
  "panelHost =
     \<lparr>css = Map.empty,
      querySelector = (\<lambda>selector. if selector = ''my-panel'' then Inr (Some blankNode) else Inr None)\<rparr>"

definition emptyHost :: JQuery where
  "emptyHost = \<lparr>css = Map.empty, querySelector = (\<lambda>selector. Inr None)\<rparr>"

definition echoDetail :: "AngularJSLocals \<Rightarrow> js_value" where
  "echoDetail locals = (case detail locals of None \<Rightarrow> JUndefined | Some v \<Rightarrow> v)"

definition mounted :: Ng1WrapperController where
  "mounted =
     \<lparr>customElement = blankNode, eventListeners = [],
      rootScope = \<lparr>applied = []\<rparr>, bound = [''save'' \<mapsto> echoDetail]\<rparr>"

section \<open>Auxiliary notions\<close>

text \<open>
  The closures that a run of \<open>$onInit\<close> over \<open>outs\<close> evaluates when the allocator
  stands at \<open>heap\<close>, each paired with the output name it was made for.
\<close>

definition closures :: "string list \<Rightarrow> nat \<Rightarrow> (string \<times> EventListener) list" where
  "closures outs heap =
     map (\<lambda>(name, i). (name, EventListener i name)) (zip outs [heap..<heap + length outs])"

section \<open>Auxiliary facts\<close>

subsection \<open>The wrapper factory\<close>

lemma createNg1Wrapper_resolved:
  assumes "get_ComponentFactoryResolver (injector config) = Some resolver"
    and "resolveComponentFactory resolver component = Some factory"
  shows "createNg1Wrapper selector component config =
     Inr \<lparr>controller =
            \<lparr>customElementSelector = selector,
             propertyInputs = map propName (inputs factory),
             propertyOutputs = map propName (outputs factory),
             dollar_inject = [''$element'', ''$rootScope''],
             prototype = defineProperties (map propName (inputs factory)) classMembers\<rparr>,
          bindings = make_bindings (map propName (inputs factory)) (map propName (outputs factory)),
          template = ''<'' @ selector @ ''></'' @ selector @ ''>''\<rparr>"
  using assms
  by (simp add: createNg1Wrapper_def getComponentInputs_def getComponentOutputs_def Let_def)

lemma sample_resolves:
  "get_ComponentFactoryResolver (injector sampleConfig) = Some sampleResolver"
  "resolveComponentFactory sampleResolver ''Widget'' = Some widgetFactory"
  "resolveComponentFactory sampleResolver ''Toggle'' = Some toggleFactory"
  "resolveComponentFactory sampleResolver ''Gadget'' = None"
  "resolveComponentFactory sampleResolver ''Panel'' = Some panelFactory"
  "resolveComponentFactory sampleResolver ''Grid'' = Some gridFactory"
  "resolveComponentFactory sampleResolver ''Chart'' = Some chartFactory"
  "resolveComponentFactory sampleResolver ''Player'' = Some playerFactory"
  by (simp_all add: sampleConfig_def sampleResolver_def)

lemma defineProperties_lookup:
  "defineProperties ins proto property =
     (if property \<in> set ins then Some (Accessor (setter property)) else proto property)"
  by (induction ins arbitrary: proto) auto

lemma update_absent: "k \<notin> fst ` set al \<Longrightarrow> AList.update k v al = al @ [(k, v)]"
  by (induction al) auto

lemma assignAll_fresh_names:
  "distinct names \<Longrightarrow> ''__proto__'' \<notin> set names \<Longrightarrow> set names \<inter> fst ` set obj = {} \<Longrightarrow>
   assignAll names tag obj = obj @ map (\<lambda>name. (name, tag)) names"
proof (induction names arbitrary: obj)
  case Nil
  then show ?case by simp
next
  case (Cons name names)
  from Cons.prems have "name \<notin> fst ` set obj" and plain: "name \<noteq> ''__proto__''" by auto
  then have upd: "assignKey name tag obj = obj @ [(name, tag)]"
    by (simp add: assignKey_def update_absent)
  have "distinct names" "''__proto__'' \<notin> set names"
    "set names \<inter> fst ` set (obj @ [(name, tag)]) = {}"
    using Cons.prems by auto
  from Cons.IH [OF this] show ?case
    by (simp add: upd)
qed

lemma make_bindings_distinct:
  assumes "distinct (ins @ outs)" and "''__proto__'' \<notin> set (ins @ outs)"
  shows "make_bindings ins outs =
     map (\<lambda>name. (name, ''<?'')) ins @ map (\<lambda>name. (name, ''&?'')) outs"
proof -
  have first: "assignAll ins ''<?'' [] = map (\<lambda>name. (name, ''<?'')) ins"
    using assms assignAll_fresh_names [where names = ins and tag = "''<?''" and obj = "[]"] by simp
  have "set outs \<inter> fst ` set (map (\<lambda>name. (name, ''<?'')) ins) = {}"
    using assms(1) by (auto simp: image_iff)
  with assms show ?thesis
    unfolding make_bindings_def first
    by (simp add: assignAll_fresh_names)
qed

subsection \<open>Construction and the accessors\<close>

text \<open>When no input is named like one of the three fields, the constructor styles the
  host element and its outcome is decided by the lookup alone.\<close>

lemma constructor_without_collision:
  assumes "assignUnset proto ''$rootScope'' True = Stored"
    and "assignUnset proto ''eventListeners'' True = Stored"
    and "\<And>valueTruthy. assignUnset proto ''customElement'' valueTruthy = Stored"
  shows "constructor proto selector element rs inherited =
     (element\<lparr>css := (css element)(''display'' \<mapsto> ''inline-block'')\<rparr>,
      case querySelector element selector of
        Inl err \<Rightarrow> Inl err
      | Inr None \<Rightarrow> Inl (Error (notFoundMessage selector))
      | Inr (Some node) \<Rightarrow>
          Inr \<lparr>customElement = node, eventListeners = [], rootScope = rs,
               bound = (\<lambda>name. case proto name of
                                  Some (Accessor setFn) \<Rightarrow> None
                                | _ \<Rightarrow> inherited name)\<rparr>)"
  using assms by (simp add: constructor_def Let_def split: sum.splits option.splits)

lemma assignUnset_plain_name:
  "name \<notin> set ins \<Longrightarrow>
   assignUnset (defineProperties ins classMembers) name valueTruthy = Stored"
  by (simp add: assignUnset_def defineProperties_lookup classMembers_def
      split: option.splits member.splits)

text \<open>On an instance, the accessor of a declared input forwards truthy values to the
  node and drops falsy ones.\<close>

lemma accessor_on_instance:
  assumes "property \<in> set ins"
  shows "defineProperties ins proto property = Some (Accessor (setter property))"
    and "\<not> truthy newValue \<Longrightarrow> setter property newValue this = this"
    and "truthy newValue \<Longrightarrow>
         customElement (setter property newValue this) =
           (customElement this)
             \<lparr>properties := (properties (customElement this))(property := newValue)\<rparr>"
  using assms by (simp_all add: defineProperties_lookup setter_def)

subsection \<open>The life cycle\<close>

lemma closures_Nil: "closures [] heap = []"
  by (simp add: closures_def)

lemma closures_Cons:
  "closures (name # outs) heap = (name, EventListener heap name) # closures outs (Suc heap)"
  by (simp add: closures_def upt_rec)

lemma map_fst_closures: "map fst (closures outs heap) = outs"
  by (induction outs arbitrary: heap) (simp_all add: closures_Nil closures_Cons)

lemma closures_ids:
  "entry \<in> set (closures outs heap) \<Longrightarrow>
   heap \<le> closure_id (snd entry) \<and> methodName (snd entry) = fst entry"
proof (induction outs arbitrary: heap)
  case Nil
  then show ?case by (simp add: closures_Nil)
next
  case (Cons name outs)
  show ?case
  proof (cases "entry = (name, EventListener heap name)")
    case True
    then show ?thesis by simp
  next
    case False
    with Cons.prems have "entry \<in> set (closures outs (Suc heap))"
      by (simp add: closures_Cons)
    from Cons.IH [OF this] show ?thesis by simp
  qed
qed

lemma onInit_Cons_method:
  assumes "proto ''createEventListener'' = Some Method"
  shows "onInit proto (name # outs) this heap =
     onInit proto outs
       (this\<lparr>eventListeners := AList.update name (EventListener heap name) (eventListeners this),
             customElement := addEventListener name (EventListener heap name) (customElement this)\<rparr>)
       (Suc heap)"
  using assms by (simp add: createEventListener_def)



lemma onInit_element:
  assumes intact: "proto ''createEventListener'' = Some Method"
  shows "\<forall>entry \<in> set (listeners (customElement this)). closure_id (snd entry) < heap \<Longrightarrow>
   customElement (fst (onInit proto outs this heap)) =
     (customElement this)\<lparr>listeners := listeners (customElement this) @ closures outs heap\<rparr>"
proof (induction outs arbitrary: this heap)
  case Nil
  then show ?case by (simp add: closures_Nil)
next
  case (Cons name outs)
  let ?l = "EventListener heap name"
  let ?this2 = "this\<lparr>eventListeners := AList.update name ?l (eventListeners this),
                     customElement := addEventListener name ?l (customElement this)\<rparr>"
  from Cons.prems have absent: "(name, ?l) \<notin> set (listeners (customElement this))"
    by force
  then have el2: "customElement ?this2 =
      (customElement this)\<lparr>listeners := listeners (customElement this) @ [(name, ?l)]\<rparr>"
    by (simp add: addEventListener_def)
  have "\<forall>entry \<in> set (listeners (customElement ?this2)). closure_id (snd entry) < Suc heap"
    using Cons.prems unfolding el2 by (auto simp: less_Suc_eq)
  from Cons.IH [OF this] have "customElement (fst (onInit proto outs ?this2 (Suc heap))) =
      (customElement ?this2)
        \<lparr>listeners := listeners (customElement ?this2) @ closures outs (Suc heap)\<rparr>" .
  then show ?case
    unfolding onInit_Cons_method [where proto = proto, OF intact] el2 by (simp add: closures_Cons)
qed

lemma onInit_registry:
  assumes intact: "proto ''createEventListener'' = Some Method"
  shows "distinct outs \<Longrightarrow> set outs \<inter> fst ` set (eventListeners this) = {} \<Longrightarrow>
   eventListeners (fst (onInit proto outs this heap)) = eventListeners this @ closures outs heap"
proof (induction outs arbitrary: this heap)
  case Nil
  then show ?case by (simp add: closures_Nil)
next
  case (Cons name outs)
  let ?l = "EventListener heap name"
  let ?this2 = "this\<lparr>eventListeners := AList.update name ?l (eventListeners this),
                     customElement := addEventListener name ?l (customElement this)\<rparr>"
  from Cons.prems have "name \<notin> fst ` set (eventListeners this)" by auto
  then have reg2: "eventListeners ?this2 = eventListeners this @ [(name, ?l)]"
    by (simp add: update_absent)
  have "distinct outs" "set outs \<inter> fst ` set (eventListeners ?this2) = {}"
    using Cons.prems unfolding reg2 by auto
  from Cons.IH [OF this] have "eventListeners (fst (onInit proto outs ?this2 (Suc heap))) =
     eventListeners ?this2 @ closures outs (Suc heap)" .
  then show ?case
    unfolding onInit_Cons_method [where proto = proto, OF intact] reg2 by (simp add: closures_Cons)
qed

lemma filter_removeAll:
  "filter P (removeAll x xs) = filter (\<lambda>y. y \<noteq> x \<and> P y) xs"
  by (induction xs) auto

lemma removeListeners_filter:
  "removeListeners registry el =
     el\<lparr>listeners := filter (\<lambda>entry. entry \<notin> set registry) (listeners el)\<rparr>"
proof (induction registry arbitrary: el)
  case Nil
  then show ?case by simp
next
  case (Cons p registry)
  obtain name listener where p: "p = (name, listener)" by (cases p)
  have "filter (\<lambda>entry. entry \<notin> set registry) (removeAll (name, listener) (listeners el))
      = filter (\<lambda>entry. entry \<notin> set (p # registry)) (listeners el)"
    unfolding p by (simp add: filter_removeAll)
  then show ?case
    unfolding p by (simp add: Cons.IH removeEventListener_def)
qed

lemma single_entry_of_key:
  "distinct (map fst al) \<Longrightarrow> (k, v) \<in> set al \<Longrightarrow>
   filter (\<lambda>entry. fst entry = k) al = [(k, v)]"
proof (induction al)
  case Nil
  then show ?case by simp
next
  case (Cons p al)
  show ?case
  proof (cases "p = (k, v)")
    case True
    from Cons.prems(1) have "k \<notin> fst ` set al"
      unfolding True by simp
    then have "filter (\<lambda>entry. fst entry = k) al = []"
      by (auto simp: filter_empty_conv image_iff)
    then show ?thesis unfolding True by simp
  next
    case False
    with Cons.prems have mem: "(k, v) \<in> set al" by simp
    then have "k \<in> fst ` set al" by force
    with Cons.prems(1) have "fst p \<noteq> k" by auto
    moreover from Cons.prems(1) have "distinct (map fst al)" by simp
    ultimately show ?thesis using Cons.IH mem by simp
  qed
qed



text \<open>What \<open>$onInit\<close> does for the class without inputs and one or two outputs.\<close>

lemma onInit_save:
  "fst (onInit classMembers [''save''] mounted 0) =
      mounted\<lparr>eventListeners := [(''save'', EventListener 0 ''save'')],
              customElement := blankNode\<lparr>listeners := [(''save'', EventListener 0 ''save'')]\<rparr>\<rparr>"
  by (simp add: classMembers_def mounted_def blankNode_def createEventListener_def
      addEventListener_def)


text \<open>
  What \<open>$onInit\<close> achieves when \<open>createEventListener\<close> is still the method of the class:
  on an instance as the constructor leaves it, with pairwise distinct output names,
  one listener per name is attached for the event type of that name and recorded
  under that name.
\<close>

lemma onInit_one_listener_per_name:
  fixes node :: HTMLElement and outs :: "string list" and heap :: nat
    and rs :: IRootScopeService and b :: "string \<rightharpoonup> (AngularJSLocals \<Rightarrow> js_value)"
    and proto :: prototype
  defines "this1 \<equiv>
    fst (onInit proto outs
          \<lparr>customElement = node, eventListeners = [], rootScope = rs, bound = b\<rparr> heap)"
  assumes "proto ''createEventListener'' = Some Method"
    and "distinct outs"
    and "\<forall>entry \<in> set (listeners node). closure_id (snd entry) < heap"
  shows "map fst (eventListeners this1) = outs
       \<and> listeners (customElement this1) = listeners node @ eventListeners this1
       \<and> (\<forall>name \<in> set outs. \<exists>listener.
             map_of (eventListeners this1) name = Some listener
           \<and> methodName listener = name
           \<and> firing (customElement this1) (Event name) = firing node (Event name) @ [listener])"
proof -
  let ?new = "closures outs heap"
  let ?c0 = "\<lparr>customElement = node, eventListeners = [], rootScope = rs, bound = b\<rparr>"
  have "customElement this1 = node\<lparr>listeners := listeners node @ ?new\<rparr>"
    unfolding this1_def
    using onInit_element [where proto = proto, OF assms(2), of ?c0 heap outs] assms(4) by simp
  moreover have "eventListeners this1 = ?new"
    unfolding this1_def
    using onInit_registry [where proto = proto, OF assms(2), of outs ?c0 heap] assms(3) by simp
  ultimately have el: "listeners (customElement this1) = listeners node @ ?new"
    and reg: "eventListeners this1 = ?new" by simp_all
  have keys: "map fst ?new = outs"
    by (rule map_fst_closures)
  have dist: "distinct (map fst ?new)"
    unfolding keys using assms(3) .
  have each: "\<exists>listener. map_of ?new name = Some listener \<and> methodName listener = name
        \<and> firing (customElement this1) (Event name) = firing node (Event name) @ [listener]"
    if "name \<in> set outs" for name
  proof -
    from that keys have "name \<in> fst ` set ?new"
      by (metis set_map)
    then obtain listener where mem: "(name, listener) \<in> set ?new"
      by force
    from dist mem have "map_of ?new name = Some listener"
      by (rule map_of_is_SomeI)
    moreover from closures_ids [OF mem] have "methodName listener = name"
      by simp
    moreover from single_entry_of_key [OF dist mem]
    have "firing (customElement this1) (Event name) = firing node (Event name) @ [listener]"
      by (simp add: firing_def el)
    ultimately show ?thesis by blast
  qed
  show ?thesis
    unfolding reg el using keys each by simp
qed


section \<open>The descriptor\<close>

text \<open>
  C7. For every selector string, the template of the descriptor that \<open>createNg1Wrapper\<close>
  returns is the opening tag of the selector followed at once by its closing tag: no
  attributes, no content, nothing before or after.
\<close>

theorem template_is_one_empty_tag:
  assumes "get_ComponentFactoryResolver (injector config) = Some resolver"
    and "resolveComponentFactory resolver component = Some factory"
  shows "\<exists>options. createNg1Wrapper selector component config = Inr options
           \<and> template options = ''<'' @ selector @ ''></'' @ selector @ ''>''"
  using createNg1Wrapper_resolved [OF assms] by simp

theorem template_is_one_empty_tag_witness:
  "get_ComponentFactoryResolver (injector sampleConfig) = Some sampleResolver
   \<and> resolveComponentFactory sampleResolver ''Widget'' = Some widgetFactory
   \<and> (\<exists>options. createNg1Wrapper ''my-widget'' ''Widget'' sampleConfig = Inr options
          \<and> template options = ''<my-widget></my-widget>'')"
  using template_is_one_empty_tag
    [of sampleConfig sampleResolver "''Widget''" widgetFactory "''my-widget''"]
  by (simp add: sample_resolves)

text \<open>
  C8. When the resolver has no factory for the component type, \<open>createNg1Wrapper\<close>
  returns the resolver's error as its own outcome: the failure happens while the
  wrapper is built, it is not caught, and no descriptor is produced.
\<close>

theorem missing_factory_aborts_wrapping:
  assumes "get_ComponentFactoryResolver (injector config) = Some resolver"
    and "resolveComponentFactory resolver component = None"
  shows "createNg1Wrapper selector component config = Inl NoComponentFactoryError"
  using assms by (simp add: createNg1Wrapper_def getComponentInputs_def)

theorem missing_factory_aborts_wrapping_witness:
  "get_ComponentFactoryResolver (injector sampleConfig) = Some sampleResolver
   \<and> resolveComponentFactory sampleResolver ''Gadget'' = None
   \<and> createNg1Wrapper ''my-gadget'' ''Gadget'' sampleConfig = Inl NoComponentFactoryError"
  using missing_factory_aborts_wrapping
    [of sampleConfig sampleResolver "''Gadget''" "''my-gadget''"]
  by (simp add: sample_resolves)

text \<open>
  C3, as amended. When the declared input names and output names are pairwise
  distinct and none of them is \<open>__proto__\<close>, the bindings of the descriptor have exactly
  one entry per declared name, \<open>N + M\<close> in all; every input name is bound with \<open><?\<close>,
  every output name with \<open>&?\<close>, and no entry carries any other tag.
\<close>

theorem bindings_of_distinct_names:
  assumes "get_ComponentFactoryResolver (injector config) = Some resolver"
    and "resolveComponentFactory resolver component = Some factory"
    and "distinct (map propName (inputs factory) @ map propName (outputs factory))"
    and "''__proto__'' \<notin> set (map propName (inputs factory) @ map propName (outputs factory))"
  shows "\<exists>options. createNg1Wrapper selector component config = Inr options
           \<and> length (bindings options) = length (inputs factory) + length (outputs factory)
           \<and> distinct (map fst (bindings options))
           \<and> (\<forall>p \<in> set (inputs factory). map_of (bindings options) (propName p) = Some ''<?'')
           \<and> (\<forall>p \<in> set (outputs factory). map_of (bindings options) (propName p) = Some ''&?'')
           \<and> (\<forall>entry \<in> set (bindings options). snd entry = ''<?'' \<or> snd entry = ''&?'')"
proof -
  let ?ins = "map propName (inputs factory)"
  let ?outs = "map propName (outputs factory)"
  let ?b = "map (\<lambda>name. (name, ''<?'')) ?ins @ map (\<lambda>name. (name, ''&?'')) ?outs"
  have b: "make_bindings ?ins ?outs = ?b"
    using assms(3,4) by (rule make_bindings_distinct)
  have keys: "map fst ?b = ?ins @ ?outs"
    by (simp add: comp_def)
  have len: "length ?b = length (inputs factory) + length (outputs factory)"
    by simp
  have dist: "distinct (map fst ?b)"
    unfolding keys using assms(3) .
  have ins: "map_of ?b (propName p) = Some ''<?''" if "p \<in> set (inputs factory)" for p
  proof -
    from that have "(propName p, ''<?'') \<in> set ?b" by auto
    with dist show ?thesis by (rule map_of_is_SomeI)
  qed
  have outs: "map_of ?b (propName p) = Some ''&?''" if "p \<in> set (outputs factory)" for p
  proof -
    from that have "(propName p, ''&?'') \<in> set ?b" by auto
    with dist show ?thesis by (rule map_of_is_SomeI)
  qed
  have tags: "snd entry = ''<?'' \<or> snd entry = ''&?''" if "entry \<in> set ?b" for entry
    using that by auto
  show ?thesis
    unfolding createNg1Wrapper_resolved [OF assms(1,2)] b
    using len dist ins outs tags by simp
qed

theorem bindings_of_distinct_names_witness:
  "distinct (map propName (inputs widgetFactory) @ map propName (outputs widgetFactory))
   \<and> ''__proto__'' \<notin> set (map propName (inputs widgetFactory) @ map propName (outputs widgetFactory))
   \<and> (\<exists>options. createNg1Wrapper ''my-widget'' ''Widget'' sampleConfig = Inr options
          \<and> length (bindings options) = 2
          \<and> map_of (bindings options) ''name'' = Some ''<?''
          \<and> map_of (bindings options) ''save'' = Some ''&?'')"
  using bindings_of_distinct_names
    [of sampleConfig sampleResolver "''Widget''" widgetFactory "''my-widget''"]
  by (auto simp add: sample_resolves widgetFactory_def numeral_2_eq_2)

text \<open>
  C3 as stated fails for a property that is declared both as an input and as an
  output: one input and one output give a single entry, and the input name is
  bound with the callback tag.
\<close>

theorem bindings_count_counterexample:
  "map_sum id bindings (createNg1Wrapper ''my-toggle'' ''Toggle'' sampleConfig)
     = Inr [(''value'', ''&?'')]
   \<and> length (inputs toggleFactory) + length (outputs toggleFactory) = 2"
  by (simp add: createNg1Wrapper_resolved [OF sample_resolves(1) sample_resolves(3)]
      toggleFactory_def make_bindings_def assignKey_def)

section \<open>Construction\<close>

text \<open>
  C10. The claim is that the constructor sets the host element's \<open>display\<close> style to
  \<open>inline-block\<close> on every construction, before it looks for the custom element. The
  code does so whenever its body is reached, but not for a component with an input
  named like the parameter property \<open>$rootScope\<close>: for the component \<open>Chart\<close> the
  assignment that precedes the body runs the accessor defined for that input, the
  setter throws, and the host element is left without the style.
\<close>

theorem input_named_rootScope_preempts_styling:
  "\<exists>options. createNg1Wrapper ''my-chart'' ''Chart'' sampleConfig = Inr options
     \<and> propertyInputs (controller options) = [''$rootScope'']
     \<and> constructor (prototype (controller options)) ''my-chart'' emptyHost rs inherited
         = (emptyHost, Inl TypeError)
     \<and> css (fst (constructor (prototype (controller options)) ''my-chart'' emptyHost rs inherited))
         ''display'' = None"
  by (simp add: createNg1Wrapper_resolved [OF sample_resolves(1) sample_resolves(7)]
      chartFactory_def constructor_def assignUnset_def emptyHost_def)

text \<open>
  C6. The claim is that a construction on a host element in which the selector matches
  no node ends with the element-not-found error. The code does so when the lookup is
  reached and gives \<open>null\<close>, but not for a component with an input named like the field
  \<open>eventListeners\<close>: for the component \<open>Grid\<close> the initialisation of the field runs the
  accessor defined for that input and the constructor ends with a \<open>TypeError\<close> before
  the lookup, on a host element where the lookup would have found nothing.
\<close>

theorem input_named_eventListeners_preempts_not_found:
  "\<exists>options. createNg1Wrapper ''my-grid'' ''Grid'' sampleConfig = Inr options
     \<and> propertyInputs (controller options) = [''eventListeners'']
     \<and> querySelector emptyHost ''my-grid'' = Inr None
     \<and> constructor (prototype (controller options)) ''my-grid'' emptyHost rs inherited
         = (emptyHost, Inl TypeError)
     \<and> TypeError \<noteq> Error (notFoundMessage ''my-grid'')"
  by (simp add: createNg1Wrapper_resolved [OF sample_resolves(1) sample_resolves(6)]
      gridFactory_def constructor_def assignUnset_def emptyHost_def classMembers_def)

section \<open>Events\<close>

text \<open>
  C1. A listener that receives an event passes one locals record to the expression
  bound to its output. The record holds the event itself under \<open>$event\<close>. It holds the
  key \<open>detail\<close>, bound to the event's payload, exactly when the event has a \<open>detail\<close>
  field; for a plain event the record has \<open>$event\<close> and no \<open>detail\<close> key. The value of
  the expression is what \<open>$apply\<close> receives.
\<close>

theorem listener_passes_event_and_detail:
  assumes "bound this (methodName listener) = Some expression"
  shows "handleEvent listener e this =
     Inr (this\<lparr>rootScope := rootScope_apply
            (expression
               \<lparr>dollar_event = e,
                detail = (case e of Event t \<Rightarrow> None | CustomEvent t d \<Rightarrow> Some (Some d))\<rparr>)
            (rootScope this)\<rparr>)"
  using assms
  by (cases e) (simp_all add: handleEvent_def make_locals_def isCustomEvent_def)

theorem listener_passes_event_and_detail_witness:
  "bound mounted (methodName (EventListener 0 ''save'')) = Some echoDetail
   \<and> handleEvent (EventListener 0 ''save'') (CustomEvent ''save'' (JObj [(''id'', JNum 7)])) mounted
       = Inr (mounted\<lparr>rootScope := \<lparr>applied = [Some (JObj [(''id'', JNum 7)])]\<rparr>\<rparr>)
   \<and> handleEvent (EventListener 0 ''save'') (Event ''save'') mounted
       = Inr (mounted\<lparr>rootScope := \<lparr>applied = [JUndefined]\<rparr>\<rparr>)"
  using listener_passes_event_and_detail
      [of mounted "EventListener 0 ''save''" echoDetail
          "CustomEvent ''save'' (JObj [(''id'', JNum 7)])"]
    listener_passes_event_and_detail
      [of mounted "EventListener 0 ''save''" echoDetail "Event ''save''"]
  by (simp add: mounted_def echoDetail_def rootScope_apply_def)

section \<open>Input accessors\<close>

text \<open>
  C2. The claim is that, for every declared input name, a falsy value assigned through
  the accessor leaves the element's property of that name unchanged and a truthy value
  sets it to exactly that value. The code does so on every instance, but not for an
  input named like the field \<open>customElement\<close>: for the component \<open>Panel\<close> the constructor's
  own assignment of the located node, a truthy value, goes through the accessor; its
  setter reads \<open>this.customElement\<close> as \<open>undefined\<close> and throws, so the node's property
  is not set and no instance results.
\<close>

theorem input_named_customElement_breaks_accessor:
  "\<exists>options. createNg1Wrapper ''my-panel'' ''Panel'' sampleConfig = Inr options
     \<and> propertyInputs (controller options) = [''customElement'']
     \<and> prototype (controller options) ''customElement'' = Some (Accessor (setter ''customElement''))
     \<and> querySelector panelHost ''my-panel'' = Inr (Some blankNode)
     \<and> constructor (prototype (controller options)) ''my-panel'' panelHost rs inherited
         = (panelHost\<lparr>css := (css panelHost)(''display'' \<mapsto> ''inline-block'')\<rparr>, Inl TypeError)"
  by (simp add: createNg1Wrapper_resolved [OF sample_resolves(1) sample_resolves(5)]
      panelFactory_def constructor_def assignUnset_def panelHost_def classMembers_def)

section \<open>Initialisation and destruction\<close>

text \<open>
  C9. The claim is that \<open>$onInit\<close> attaches exactly one listener per declared output
  name and records it in the registry under that name. The code does so while
  \<open>createEventListener\<close> is the method of the class, but not for a component with an
  input of that name: for the component \<open>Player\<close>, with the output \<open>save\<close>, the name holds
  the accessor defined for the input, the call in the first pass of the loop throws a
  \<open>TypeError\<close>, and the instance is left with no listener attached and none recorded.
\<close>

theorem input_named_createEventListener_breaks_onInit:
  "\<exists>options. createNg1Wrapper ''my-player'' ''Player'' sampleConfig = Inr options
     \<and> propertyInputs (controller options) = [''createEventListener'']
     \<and> propertyOutputs (controller options) = [''save'']
     \<and> onInit (prototype (controller options)) (propertyOutputs (controller options)) mounted 0
         = (mounted, 0, Some TypeError)
     \<and> eventListeners mounted = []
     \<and> listeners (customElement mounted) = []"
  by (simp add: createNg1Wrapper_resolved [OF sample_resolves(1) sample_resolves(8)]
      playerFactory_def mounted_def blankNode_def)

text \<open>
  C4, as amended. \<open>$onDestroy\<close> removes every listener recorded in the registry from
  the underlying element and leaves the element's other listeners in place. It does
  not clear the registry: the registry has the same entries after destruction as
  before.
\<close>

theorem onDestroy_detaches_recorded_listeners:
  "listeners (customElement (onDestroy this)) =
     filter (\<lambda>entry. entry \<notin> set (eventListeners this)) (listeners (customElement this))
   \<and> (\<forall>entry \<in> set (eventListeners this).
         entry \<notin> set (listeners (customElement (onDestroy this))))
   \<and> eventListeners (onDestroy this) = eventListeners this"
  by (simp add: onDestroy_def removeListeners_filter)

theorem onDestroy_detaches_recorded_listeners_witness:
  "eventListeners (fst (onInit classMembers [''save''] mounted 0))
       = [(''save'', EventListener 0 ''save'')]
   \<and> listeners (customElement (fst (onInit classMembers [''save''] mounted 0)))
       = [(''save'', EventListener 0 ''save'')]
   \<and> listeners (customElement (onDestroy (fst (onInit classMembers [''save''] mounted 0)))) = []
   \<and> (''save'', EventListener 0 ''save'')
       \<notin> set (listeners (customElement (onDestroy (fst (onInit classMembers [''save''] mounted 0)))))"
proof -
  from onDestroy_detaches_recorded_listeners [of "fst (onInit classMembers [''save''] mounted 0)"]
  have "listeners (customElement (onDestroy (fst (onInit classMembers [''save''] mounted 0)))) =
     filter (\<lambda>entry. entry \<notin> set (eventListeners (fst (onInit classMembers [''save''] mounted 0))))
       (listeners (customElement (fst (onInit classMembers [''save''] mounted 0))))"
    by blast
  then show ?thesis
    unfolding onInit_save by simp
qed

text \<open>
  C4 as stated fails in its second half: after \<open>$onInit\<close> for the output \<open>save\<close> and
  \<open>$onDestroy\<close>, the registry still holds the entry for \<open>save\<close>.
\<close>

theorem onDestroy_registry_counterexample:
  "eventListeners (onDestroy (fst (onInit classMembers [''save''] mounted 0)))
     = [(''save'', EventListener 0 ''save'')]
   \<and> eventListeners (onDestroy (fst (onInit classMembers [''save''] mounted 0))) \<noteq> []"
  unfolding onInit_save by (simp add: onDestroy_def)



end
